theory Spec2Isabelle
  imports Main
begin

section \<open>Python values used as indices, and their string form\<close>

text \<open>
  The objects that \<open>gplearn/arg.py\<close> uses as indices, prefixes and suffixes: \<open>None\<close>,
  integers (unbounded) and strings. \<open>str\<close> is Python's \<open>str()\<close> on them, which is also what
  \<open>"{}_{}".format\<close> applies to each argument.
\<close>

datatype pyval = PNone | PInt int | PStr string

datatype error = IndexError | KeyError | TypeError | ValueError | AttributeError | RecursionError

definition digit_char :: "nat \<Rightarrow> char" where
  "digit_char d = ''0123456789'' ! d"

fun str_nat :: "nat \<Rightarrow> string" where
  "str_nat n = (if n < 10 then [digit_char n] else str_nat (n div 10) @ [digit_char (n mod 10)])"

definition str_int :: "int \<Rightarrow> string" where
  "str_int i = (if i < 0 then CHR ''-'' # str_nat (nat (- i)) else str_nat (nat i))"

declare str_nat.simps [simp del]

fun str :: "pyval \<Rightarrow> string" where
  "str PNone = ''None''"
| "str (PInt i) = str_int i"
| "str (PStr s) = s"

section \<open>BaseInputs.build_idx\<close>

text \<open>
  \<^verbatim>\<open>
  def build_idx(cls, i, prefix, suffix):
      if prefix is None:
          if suffix is None:
              return str(i)
          return suffix
      if suffix is None:
          suffix = str(i)
      return "{}_{}".format(prefix, suffix)
  \<close>
\<close>

definition build_idx :: "int \<Rightarrow> pyval \<Rightarrow> pyval \<Rightarrow> pyval" where
  "build_idx i prefix suffix =
     (if prefix = PNone then
        (if suffix = PNone then PStr (str_int i) else suffix)
      else
        (let suffix' = (if suffix = PNone then PStr (str_int i) else suffix)
         in PStr (str prefix @ ''_'' @ str suffix')))"

section \<open>The containers behind the views\<close>

text \<open>
  A two-dimensional numpy array is its shape, its element type and its row-major buffer;
  a pandas frame is its columns in declared order, each with a name, an element type and
  its data.
\<close>

datatype ('a, 't) ndarray =
  NDArray (shape0: nat) (shape1: nat) (dtype: 't) (buffer: "'a list")

datatype ('a, 't) series =
  Series (name: pyval) (sdtype: 't) (to_numpy: "'a list")

datatype ('a, 't) dataframe =
  DataFrame (nrows: nat) (cols: "('a, 't) series list")

text \<open>
  An object is a leaf (any value that is not a view), a one-dimensional array (what a
  column lookup returns, a leaf as well), a two-dimensional array given by its columns
  (what a frame returns for a column name that several columns carry) or a view. A view holds \<open>values\<close> and \<open>types\<close>;
  the mapping of a \<open>DictInputs\<close> is an association list in insertion order, and its
  \<open>keys\<close> attribute is the list of the first components.
\<close>

datatype ('a, 't) obj =
    Leaf 'a
  | Array "'a list"
  | Array2D "'a list list"
  | View "('a, 't) inputs"
and ('a, 't) inputs =
    ListInputs "('a, 't) obj list" "'t list"
  | DictInputs "(pyval \<times> ('a, 't) obj) list" "'t list"
  | NDInputs "('a, 't) ndarray" "'t list"
  | DataframeInputs "('a, 't) dataframe" "'t list"

fun types :: "('a, 't) inputs \<Rightarrow> 't list" where
  "types (ListInputs vs ts) = ts"
| "types (DictInputs kvs ts) = ts"
| "types (NDInputs a ts) = ts"
| "types (DataframeInputs d ts) = ts"

fun keys :: "('k \<times> 'v) list \<Rightarrow> 'k list" where
  "keys kvs = map fst kvs"

text \<open>\<open>types or default\<close>: \<open>None\<close> and the empty list are both falsy.\<close>

fun types_or :: "'t list option \<Rightarrow> 't list \<Rightarrow> 't list" where
  "types_or None dflt = dflt"
| "types_or (Some ts) dflt = (if ts = [] then dflt else ts)"

text \<open>\<open>values.T\<close> and \<open>len\<close> of an array (its first dimension).\<close>

definition column :: "('a, 't) ndarray \<Rightarrow> nat \<Rightarrow> 'a list" where
  "column a c = map (\<lambda>r. buffer a ! (r * shape1 a + c)) [0..<shape0 a]"

definition transpose_nd :: "('a, 't) ndarray \<Rightarrow> ('a, 't) ndarray" where
  "transpose_nd a =
     NDArray (shape1 a) (shape0 a) (dtype a) (concat (map (column a) [0..<shape1 a]))"

definition len_nd :: "('a, 't) ndarray \<Rightarrow> nat" where
  "len_nd a = shape0 a"

section \<open>Construction and type inference\<close>

text \<open>
  \<open>ty\<close> is Python's \<open>type()\<close> on an object.
  \<^verbatim>\<open>
  BaseInputs:       self.types = types or [type(value) for value in values]
  NDInputs:         self.types = types or [values.dtype] * len(values.T)
  DataframeInputs:  self.types = types or values.dtypes.values.tolist()
  DictInputs:       self.values = frozendict(values); self.keys = list(self.values.keys())
                    self.types = types or [type(value) for value in values.values()]
  \<close>
\<close>

definition mk_ListInputs ::
  "(('a, 't) obj \<Rightarrow> 't) \<Rightarrow> ('a, 't) obj list \<Rightarrow> 't list option \<Rightarrow> ('a, 't) inputs" where
  "mk_ListInputs ty vs tys = ListInputs vs (types_or tys (map ty vs))"

definition mk_NDInputs :: "('a, 't) ndarray \<Rightarrow> 't list option \<Rightarrow> ('a, 't) inputs" where
  "mk_NDInputs a tys = NDInputs a (types_or tys (replicate (len_nd (transpose_nd a)) (dtype a)))"

definition mk_DataframeInputs :: "('a, 't) dataframe \<Rightarrow> 't list option \<Rightarrow> ('a, 't) inputs" where
  "mk_DataframeInputs d tys = DataframeInputs d (types_or tys (map sdtype (cols d)))"

definition mk_DictInputs ::
  "(('a, 't) obj \<Rightarrow> 't) \<Rightarrow> (pyval \<times> ('a, 't) obj) list \<Rightarrow> 't list option \<Rightarrow> ('a, 't) inputs" where
  "mk_DictInputs ty kvs tys = DictInputs kvs (types_or tys (map (\<lambda>kv. ty (snd kv)) kvs))"

section \<open>Length, lookup and iteration\<close>

text \<open>
  \<open>BaseInputs.__len__\<close> is \<open>len(self.values)\<close> (the number of elements of a list, of keys
  of a mapping); \<open>NDInputs\<close> and \<open>DataframeInputs\<close> return \<open>self.values.shape[1]\<close>.
\<close>

fun len :: "('a, 't) inputs \<Rightarrow> nat" where
  "len (ListInputs vs ts) = length vs"
| "len (DictInputs kvs ts) = length kvs"
| "len (NDInputs a ts) = shape1 a"
| "len (DataframeInputs d ts) = length (cols d)"

text \<open>
  Positional indexing of a Python list: a negative integer counts from the end, an
  integer out of range raises \<open>IndexError\<close>, anything that is not an integer raises
  \<open>TypeError\<close>.
\<close>

fun list_getitem :: "'x list \<Rightarrow> pyval \<Rightarrow> error + 'x" where
  "list_getitem xs (PInt i) =
     (if 0 \<le> i \<and> i < int (length xs) then Inr (xs ! nat i)
      else if i < 0 \<and> - int (length xs) \<le> i then Inr (xs ! nat (int (length xs) + i))
      else Inl IndexError)"
| "list_getitem xs PNone = Inl TypeError"
| "list_getitem xs (PStr s) = Inl TypeError"

text \<open>Lookup by key in a mapping: \<open>KeyError\<close> on a missing key.\<close>

definition dict_getitem :: "('k \<times> 'v) list \<Rightarrow> 'k \<Rightarrow> error + 'v" where
  "dict_getitem kvs k = (case map_of kvs k of None \<Rightarrow> Inl KeyError | Some v \<Rightarrow> Inr v)"

text \<open>
  \<open>values[:, idx]\<close> on a two-dimensional array: the column at an integer position (negative
  from the end), \<open>IndexError\<close> out of range and for a string; \<open>None\<close> is numpy's
  \<open>newaxis\<close>, which returns the same data under another shape.
\<close>

fun nd_column :: "('a, 't) ndarray \<Rightarrow> pyval \<Rightarrow> error + 'a list" where
  "nd_column a (PInt i) =
     (if 0 \<le> i \<and> i < int (shape1 a) then Inr (column a (nat i))
      else if i < 0 \<and> - int (shape1 a) \<le> i then Inr (column a (nat (int (shape1 a) + i)))
      else Inl IndexError)"
| "nd_column a PNone = Inr (buffer a)"
| "nd_column a (PStr s) = Inl IndexError"

text \<open>
  \<open>values[idx].to_numpy()\<close> for a name among the columns of a frame: the data of the
  column when one column carries the name, the two-dimensional array of all the columns
  that carry it otherwise.
\<close>

definition frame_getitem :: "('a, 't) dataframe \<Rightarrow> pyval \<Rightarrow> error + ('a, 't) obj" where
  "frame_getitem d idx =
     (case filter (\<lambda>s. name s = idx) (cols d) of
        [] \<Rightarrow> Inl KeyError
      | [s] \<Rightarrow> Inr (Array (to_numpy s))
      | s # s' # ss \<Rightarrow> Inr (Array2D (map to_numpy (s # s' # ss))))"

text \<open>
  \<open>values.iloc[:, idx].to_numpy()\<close>: the column at an integer position (negative from the
  end), \<open>IndexError\<close> for an integer out of range, \<open>ValueError\<close> for anything that is
  not an integer.
\<close>

fun frame_iloc :: "('a, 't) dataframe \<Rightarrow> pyval \<Rightarrow> error + ('a, 't) obj" where
  "frame_iloc d (PInt i) =
     (if 0 \<le> i \<and> i < int (length (cols d)) then Inr (Array (to_numpy (cols d ! nat i)))
      else if i < 0 \<and> - int (length (cols d)) \<le> i
        then Inr (Array (to_numpy (cols d ! nat (int (length (cols d)) + i))))
      else Inl IndexError)"
| "frame_iloc d PNone = Inl ValueError"
| "frame_iloc d (PStr s) = Inl ValueError"

text \<open>
  \<^verbatim>\<open>
  NDInputs:         return self.values[:, idx]
  DataframeInputs:  if idx in self.values.columns:
                        return self.values[idx].to_numpy()
                    return self.values.iloc[:, idx].to_numpy()
  DictInputs:       if idx in self.keys:
                        return self.values[idx]
                    else:
                        return self.values[self.keys[idx]]
  ListInputs:       return self.values[idx]
  \<close>
\<close>

fun getitem :: "('a, 't) inputs \<Rightarrow> pyval \<Rightarrow> error + ('a, 't) obj" where
  "getitem (NDInputs a ts) idx = map_sum id Array (nd_column a idx)"
| "getitem (DataframeInputs d ts) idx =
     (if idx \<in> set (map name (cols d)) then frame_getitem d idx
      else frame_iloc d idx)"
| "getitem (DictInputs kvs ts) idx =
     (if idx \<in> set (keys kvs) then dict_getitem kvs idx
      else (case list_getitem (keys kvs) idx of
              Inl e \<Rightarrow> Inl e
            | Inr k \<Rightarrow> dict_getitem kvs k))"
| "getitem (ListInputs vs ts) idx = list_getitem vs idx"

text \<open>
  The indices each \<open>__iter__\<close> runs over: \<open>range(len(self))\<close> for \<open>NDInputs\<close> and
  \<open>ListInputs\<close>, \<open>self.values.columns\<close> for \<open>DataframeInputs\<close>, \<open>self.keys\<close> for
  \<open>DictInputs\<close>. Each of them yields \<open>idx, self[idx]\<close>.
\<close>

fun iter_indices :: "('a, 't) inputs \<Rightarrow> pyval list" where
  "iter_indices (NDInputs a ts) = map (\<lambda>n. PInt (int n)) [0..<len (NDInputs a ts)]"
| "iter_indices (DataframeInputs d ts) = map name (cols d)"
| "iter_indices (DictInputs kvs ts) = keys kvs"
| "iter_indices (ListInputs vs ts) = map (\<lambda>n. PInt (int n)) [0..<len (ListInputs vs ts)]"

fun yield_all :: "('a, 't) inputs \<Rightarrow> pyval list \<Rightarrow> error + (pyval \<times> ('a, 't) obj) list" where
  "yield_all self [] = Inr []"
| "yield_all self (idx # rest) =
     (case getitem self idx of
        Inl e \<Rightarrow> Inl e
      | Inr v \<Rightarrow> (case yield_all self rest of
                   Inl e \<Rightarrow> Inl e
                 | Inr ps \<Rightarrow> Inr ((idx, v) # ps)))"

definition iter :: "('a, 't) inputs \<Rightarrow> error + (pyval \<times> ('a, 't) obj) list" where
  "iter self = yield_all self (iter_indices self)"


section \<open>BaseInputs._flatten\<close>

text \<open>
  The recursion of \<open>_flatten\<close> goes into \<open>self[idx]\<close>, an element of the view. The weight
  below counts the views of an object; an element weighs less than the view it is in,
  which is the termination argument.
\<close>

fun wt_obj :: "('a, 't) obj \<Rightarrow> nat" and wt_inputs :: "('a, 't) inputs \<Rightarrow> nat" where
  "wt_obj (Leaf a) = 0"
| "wt_obj (Array xs) = 0"
| "wt_obj (Array2D xss) = 0"
| "wt_obj (View v) = Suc (wt_inputs v)"
| "wt_inputs (ListInputs vs ts) = Suc (sum_list (map wt_obj vs))"
| "wt_inputs (DictInputs kvs ts) = Suc (sum_list (map (\<lambda>kv. wt_obj (snd kv)) kvs))"
| "wt_inputs (NDInputs a ts) = Suc 0"
| "wt_inputs (DataframeInputs d ts) = Suc 0"

lemma wt_member: "x \<in> set xs \<Longrightarrow> wt_obj x \<le> sum_list (map wt_obj xs)"
  by (induction xs) auto

lemma wt_member_snd:
  "(k, x) \<in> set kvs \<Longrightarrow> wt_obj x \<le> sum_list (map (\<lambda>kv. wt_obj (snd kv)) kvs)"
  by (induction kvs) auto

lemma list_getitem_mem: "list_getitem xs idx = Inr x \<Longrightarrow> x \<in> set xs"
  by (cases idx) (auto simp: Let_def split: if_splits)

lemma dict_getitem_mem: "dict_getitem kvs k = Inr v \<Longrightarrow> (k, v) \<in> set kvs"
  by (auto simp: dict_getitem_def split: option.splits dest: map_of_SomeD)

lemma getitem_wt: "getitem self idx = Inr x \<Longrightarrow> wt_obj x < wt_inputs self"
proof (cases self)
  case (ListInputs vs ts)
  assume "getitem self idx = Inr x"
  with ListInputs have "x \<in> set vs" by (auto dest: list_getitem_mem)
  with ListInputs show ?thesis using wt_member[of x vs] by simp
next
  case (DictInputs kvs ts)
  assume "getitem self idx = Inr x"
  with DictInputs obtain k where "(k, x) \<in> set kvs"
    by (auto split: if_splits sum.splits dest: dict_getitem_mem)
  with DictInputs show ?thesis using wt_member_snd[of k x kvs] by simp
next
  case (NDInputs a ts)
  assume "getitem self idx = Inr x"
  with NDInputs show ?thesis by (cases "nd_column a idx") auto
next
  case (DataframeInputs d ts)
  assume "getitem self idx = Inr x"
  with DataframeInputs show ?thesis
    by (cases idx)
       (auto simp: frame_getitem_def split: if_splits list.splits)
qed

text \<open>
  \<^verbatim>\<open>
  def _flatten(cls, inputs, idx=None):
      flattened_values = list()
      flattened_idxs = list()
      if isinstance(inputs, BaseInputs):
          for i, (nested_idx, nested_value) in enumerate(inputs):
              nested_flat_idx, nested_flat_values = cls._flatten(nested_value, idx=nested_idx)
              nested_flat_idx = [
                  cls.build_idx(i, idx, nested_idx)
                  for nested_idx
                  in nested_flat_idx
              ]
              flattened_idxs.extend(nested_flat_idx)
              flattened_values.extend(nested_flat_values)
      else:
          return [None], [inputs]
      return flattened_idxs, flattened_values
  \<close>
  \<open>flatten_loop\<close> is the \<open>for\<close> loop from position \<open>i\<close> on, over the indices the
  iterator has still to yield; each step reads \<open>self[nested_idx]\<close> as the generator does,
  so an exception of the lookup or of the nested call ends the loop where Python would.
\<close>

function BaseInputs_flatten ::
    "('a, 't) obj \<Rightarrow> pyval \<Rightarrow> error + (pyval list \<times> ('a, 't) obj list)"
  and flatten_loop ::
    "('a, 't) inputs \<Rightarrow> pyval \<Rightarrow> pyval list \<Rightarrow> nat
       \<Rightarrow> error + (pyval list \<times> ('a, 't) obj list)"
where
  "BaseInputs_flatten (View v) idx = flatten_loop v idx (iter_indices v) 0"
| "BaseInputs_flatten (Leaf a) idx = Inr ([PNone], [Leaf a])"
| "BaseInputs_flatten (Array xs) idx = Inr ([PNone], [Array xs])"
| "BaseInputs_flatten (Array2D xss) idx = Inr ([PNone], [Array2D xss])"
| "flatten_loop self idx [] i = Inr ([], [])"
| "flatten_loop self idx (nested_idx # rest) i =
     (case getitem self nested_idx of
        Inl e \<Rightarrow> Inl e
      | Inr nested_value \<Rightarrow>
          (case BaseInputs_flatten nested_value nested_idx of
             Inl e \<Rightarrow> Inl e
           | Inr (nested_flat_idx, nested_flat_values) \<Rightarrow>
               (case flatten_loop self idx rest (Suc i) of
                  Inl e \<Rightarrow> Inl e
                | Inr (flattened_idxs, flattened_values) \<Rightarrow>
                    Inr (map (build_idx (int i) idx) nested_flat_idx @ flattened_idxs,
                         nested_flat_values @ flattened_values))))"
  by pat_completeness auto
termination
  apply (relation "measures
    [\<lambda>x. case x of Inl (ob, _) \<Rightarrow> wt_obj ob | Inr (self, _, _, _) \<Rightarrow> wt_inputs self,
     \<lambda>x. case x of Inl _ \<Rightarrow> 0 | Inr (_, _, ks, _) \<Rightarrow> length ks]")
     apply (auto dest: getitem_wt)
  done

fun isinstance_BaseInputs :: "('a, 't) obj \<Rightarrow> bool" where
  "isinstance_BaseInputs (View v) = True"
| "isinstance_BaseInputs (Leaf a) = False"
| "isinstance_BaseInputs (Array xs) = False"
| "isinstance_BaseInputs (Array2D xss) = False"

text \<open>
  \<^verbatim>\<open>
  ListInputs.flatten:
      flattened_idxs, flattened_values = cls._flatten(inputs)
      return ListInputs(flattened_values)
  \<close>
\<close>

definition ListInputs_flatten ::
  "(('a, 't) obj \<Rightarrow> 't) \<Rightarrow> ('a, 't) obj \<Rightarrow> error + ('a, 't) inputs" where
  "ListInputs_flatten ty inputs =
     (case BaseInputs_flatten inputs PNone of
        Inl e \<Rightarrow> Inl e
      | Inr (flattened_idxs, flattened_values) \<Rightarrow> Inr (mk_ListInputs ty flattened_values None))"


text \<open>
  Storing a key in a mapping: an existing key keeps its place and takes the new value, a
  new key goes last. A dict comprehension and \<open>{**a, **b}\<close> store their entries in order.
\<close>

fun dict_set :: "('k \<times> 'v) list \<Rightarrow> 'k \<Rightarrow> 'v \<Rightarrow> ('k \<times> 'v) list" where
  "dict_set [] k v = [(k, v)]"
| "dict_set ((k', v') # kvs) k v =
     (if k' = k then (k', v) # kvs else (k', v') # dict_set kvs k v)"

fun dict_update :: "('k \<times> 'v) list \<Rightarrow> ('k \<times> 'v) list \<Rightarrow> ('k \<times> 'v) list" where
  "dict_update d [] = d"
| "dict_update d ((k, v) # rest) = dict_update (dict_set d k v) rest"

text \<open>
  \<^verbatim>\<open>
  DictInputs.flatten:
      flattened_idxs, flattened_values = cls._flatten(inputs)
      return DictInputs({k: v for k, v in zip(flattened_idxs, flattened_values)})
  \<close>
\<close>

definition DictInputs_flatten ::
  "(('a, 't) obj \<Rightarrow> 't) \<Rightarrow> ('a, 't) obj \<Rightarrow> error + ('a, 't) inputs" where
  "DictInputs_flatten ty inputs =
     (case BaseInputs_flatten inputs PNone of
        Inl e \<Rightarrow> Inl e
      | Inr (flattened_idxs, flattened_values) \<Rightarrow>
          Inr (mk_DictInputs ty (dict_update [] (zip flattened_idxs flattened_values)) None))"

section \<open>Views that share or contain themselves: \<open>_flatten\<close> over a store\<close>

text \<open>
  A \<open>ListInputs\<close> keeps a reference to the list it is given, so a view can be appended to
  its own values afterwards. To speak of such structures the objects live in a store of
  addresses: a view holds the addresses of its elements. Only the two kinds of views that
  hold arbitrary objects are needed (a mapping yields its entries in key order). The
  interpreter bounds the depth of recursion: \<open>d\<close> is the number of frames \<open>_flatten\<close> may
  still open, and \<open>RecursionError\<close> is raised when none is left.
\<close>

type_synonym addr = nat

datatype 'a hobj =
    HLeaf 'a
  | HListInputs "addr list"
  | HDictInputs "(pyval \<times> addr) list"

type_synonym 'a heap = "addr \<Rightarrow> 'a hobj"

fun hitems :: "'a hobj \<Rightarrow> (pyval \<times> addr) list" where
  "hitems (HLeaf x) = []"
| "hitems (HListInputs as) = zip (map (\<lambda>n. PInt (int n)) [0..<length as]) as"
| "hitems (HDictInputs kvs) = kvs"

fun BaseInputs_flatten_h ::
    "'a heap \<Rightarrow> nat \<Rightarrow> addr \<Rightarrow> pyval \<Rightarrow> error + (pyval list \<times> addr list)"
  and flatten_loop_h ::
    "'a heap \<Rightarrow> nat \<Rightarrow> pyval \<Rightarrow> (pyval \<times> addr) list \<Rightarrow> nat
       \<Rightarrow> error + (pyval list \<times> addr list)"
where
  "BaseInputs_flatten_h h 0 inputs idx = Inl RecursionError"
| "BaseInputs_flatten_h h (Suc d) inputs idx =
     (case h inputs of
        HLeaf x \<Rightarrow> Inr ([PNone], [inputs])
      | HListInputs as \<Rightarrow> flatten_loop_h h d idx (hitems (h inputs)) 0
      | HDictInputs kvs \<Rightarrow> flatten_loop_h h d idx (hitems (h inputs)) 0)"
| "flatten_loop_h h d idx [] i = Inr ([], [])"
| "flatten_loop_h h d idx ((nested_idx, nested_value) # rest) i =
     (case BaseInputs_flatten_h h d nested_value nested_idx of
        Inl e \<Rightarrow> Inl e
      | Inr (nested_flat_idx, nested_flat_values) \<Rightarrow>
          (case flatten_loop_h h d idx rest (Suc i) of
             Inl e \<Rightarrow> Inl e
           | Inr (flattened_idxs, flattened_values) \<Rightarrow>
               Inr (map (build_idx (int i) idx) nested_flat_idx @ flattened_idxs,
                    nested_flat_values @ flattened_values)))"

text \<open>
  \<open>child h a b\<close>: the view at \<open>a\<close> has the object at \<open>b\<close> as an element. A structure
  contains a cycle when some view reachable from its root is reachable from one of its own
  elements.
\<close>

definition child :: "'a heap \<Rightarrow> addr \<Rightarrow> addr \<Rightarrow> bool" where
  "child h a b = (b \<in> set (map snd (hitems (h a))))"

inductive reach :: "'a heap \<Rightarrow> addr \<Rightarrow> addr \<Rightarrow> bool" for h :: "'a heap" where
  reach_refl: "reach h a a"
| reach_step: "child h a b \<Longrightarrow> reach h b c \<Longrightarrow> reach h a c"

definition contains_cycle :: "'a heap \<Rightarrow> addr \<Rightarrow> bool" where
  "contains_cycle h a = (\<exists>b c. reach h a b \<and> child h b c \<and> reach h c b)"

text \<open>
  A view that contains itself:
  \<^verbatim>\<open>
  values = [5]
  view = ListInputs(values)
  values.append(view)
  \<close>
  The view is at address 0, the leaf at address 1 (as at every other address).
\<close>

definition cyclic_heap :: "int heap" where
  "cyclic_heap a = (if a = 0 then HListInputs [1, 0] else HLeaf 5)"

section \<open>ArgSampler.sample\<close>

text \<open>
  \<^verbatim>\<open>
  def sample(self, random_state=None, n=1, seed=0):
      samples = list()
      random_state = random_state or check_random_state(seed)
      for i in range(n):
          args = {arg: random_state.uniform(*arg_range)
                  for arg, arg_range in self.arg_range_dict.items()}
          kwargs = {kwarg: random_state.uniform(*kwarg_range)
                    for kwarg, kwarg_range in self.arg_range_dict.items()}
          samples.append({**args, **kwargs})
      return samples
  \<close>
  The random source is a state \<open>'g\<close>; \<open>uniform g r\<close> draws from the range \<open>r\<close> and returns
  the value with the next state, and \<open>check_random_state\<close> builds a source from a seed.
  Both are parameters: the properties below are about the shape of the result, not the numbers.
\<close>

datatype 'r ArgSampler =
  ArgSampler (arg_range_dict: "(string \<times> 'r) list") (kwarg_range_dict: "(string \<times> 'r) list")

fun draw_dict ::
  "('g \<Rightarrow> 'r \<Rightarrow> 'v \<times> 'g) \<Rightarrow> (string \<times> 'r) list \<Rightarrow> (string \<times> 'v) list \<Rightarrow> 'g
     \<Rightarrow> (string \<times> 'v) list \<times> 'g" where
  "draw_dict uniform [] acc g = (acc, g)"
| "draw_dict uniform ((arg, arg_range) # rest) acc g =
     (case uniform g arg_range of
        (v, g') \<Rightarrow> draw_dict uniform rest (dict_set acc arg v) g')"

fun sample_loop ::
  "'r ArgSampler \<Rightarrow> ('g \<Rightarrow> 'r \<Rightarrow> 'v \<times> 'g) \<Rightarrow> nat \<Rightarrow> (string \<times> 'v) list list \<Rightarrow> 'g
     \<Rightarrow> (string \<times> 'v) list list \<times> 'g" where
  "sample_loop self uniform 0 samples g = (samples, g)"
| "sample_loop self uniform (Suc k) samples g =
     (case draw_dict uniform (arg_range_dict self) [] g of
        (args, g1) \<Rightarrow>
          (case draw_dict uniform (arg_range_dict self) [] g1 of
             (kwargs, g2) \<Rightarrow>
               sample_loop self uniform k (samples @ [dict_update args kwargs]) g2))"

definition sample ::
  "'r ArgSampler \<Rightarrow> ('s \<Rightarrow> 'g) \<Rightarrow> ('g \<Rightarrow> 'r \<Rightarrow> 'v \<times> 'g) \<Rightarrow> 'g option \<Rightarrow> int \<Rightarrow> 's
     \<Rightarrow> (string \<times> 'v) list list \<times> 'g" where
  "sample self check_random_state uniform random_state n seed =
     (let g = (case random_state of None \<Rightarrow> check_random_state seed | Some g \<Rightarrow> g)
      in sample_loop self uniform (nat n) [] g)"

section \<open>ConstantFNInput\<close>

text \<open>
  \<^verbatim>\<open>
  class ConstantFNInput(_Function):

      def __init__(self, function, name, args, kwargs, output_type=None):
          super(_Function, self).__init__(
              self,
              function,
              name,
              0,
              input_types=None,
              output_type=output_type
          )
          self.args = args
          self.kwargs = kwargs

      @property
      def value(self):
          value = self.fn(*self.args, **self.kwargs)
          return value
  \<close>
  An instance is its attributes, each of them set or not yet set. The callable may have
  effects, so it takes the state of the world and returns its result with the new state.

  \<open>super(_Function, self)\<close> starts the lookup of \<open>__init__\<close> after \<open>_Function\<close> in the
  method resolution order: the initialiser of \<open>_Function\<close> is skipped and the one called is
  that of \<open>object\<close>, which raises \<open>TypeError\<close> when it is given any argument besides the
  instance. Here it is given four positional arguments (\<open>self\<close> once more, \<open>function\<close>,
  \<open>name\<close>, \<open>0\<close>) and two keyword arguments. The assignments to \<open>args\<close> and \<open>kwargs\<close> come
  after the call, and nothing assigns \<open>fn\<close>.
\<close>

datatype ('s, 'p, 'k, 'r) ConstantFNInput =
  ConstantFNInput (fn: "('p \<Rightarrow> 'k \<Rightarrow> 's \<Rightarrow> 'r \<times> 's) option") (args: "'p option")
    (kwargs: "'k option")

definition object_init :: "nat \<Rightarrow> nat \<Rightarrow> error + unit" where
  "object_init n_args n_kwargs = (if n_args = 0 \<and> n_kwargs = 0 then Inr () else Inl TypeError)"

definition ConstantFNInput_init ::
  "('p \<Rightarrow> 'k \<Rightarrow> 's \<Rightarrow> 'r \<times> 's) \<Rightarrow> string \<Rightarrow> 'p \<Rightarrow> 'k \<Rightarrow> 't option
     \<Rightarrow> error + ('s, 'p, 'k, 'r) ConstantFNInput" where
  "ConstantFNInput_init function fn_name fn_args fn_kwargs output_type =
     (case object_init 4 2 of
        Inl e \<Rightarrow> Inl e
      | Inr u \<Rightarrow> Inr (ConstantFNInput None (Some fn_args) (Some fn_kwargs)))"

text \<open>Reading an attribute that is not set raises \<open>AttributeError\<close>.\<close>

definition ConstantFNInput_value ::
  "('s, 'p, 'k, 'r) ConstantFNInput \<Rightarrow> 's \<Rightarrow> error + ('r \<times> 's)" where
  "ConstantFNInput_value self s =
     (case fn self of
        None \<Rightarrow> Inl AttributeError
      | Some f \<Rightarrow>
          (case args self of
             None \<Rightarrow> Inl AttributeError
           | Some a \<Rightarrow>
               (case kwargs self of
                  None \<Rightarrow> Inl AttributeError
                | Some k \<Rightarrow> Inr (f a k s))))"

text \<open>
  \<^verbatim>\<open>
  count = 0
  def counter():
      global count
      count += 1
      return count
  \<close>
\<close>

definition counter :: "unit \<Rightarrow> unit \<Rightarrow> int \<Rightarrow> int \<times> int" where
  "counter a k count = (count + 1, count + 1)"

section \<open>Theorems\<close>

subsection \<open>String forms of small numbers\<close>

lemma str_nat_digit: "n < 10 \<Longrightarrow> str_nat n = [digit_char n]"
  by (simp add: str_nat.simps)

lemma str_int_0: "str_int 0 = ''0''"
  by (simp add: str_int_def str_nat_digit digit_char_def)

lemma str_int_1: "str_int 1 = ''1''"
  by (simp add: str_int_def str_nat_digit digit_char_def)

lemma str_int_3: "str_int 3 = ''3''"
  by (simp add: str_int_def str_nat_digit digit_char_def)

subsection \<open>build_idx\<close>


text \<open>
  C2. \<open>build_idx(i, p, s)\<close> is the string form of \<open>i\<close> when prefix and suffix are both
  \<open>None\<close>; the suffix, unchanged, when only the prefix is \<open>None\<close>; \<open>"{p}_{i}"\<close> when only
  the suffix is \<open>None\<close>; and \<open>"{p}_{s}"\<close> when both are present.
\<close>

theorem build_idx_cases:
  "build_idx i PNone PNone = PStr (str_int i)
   \<and> (s \<noteq> PNone \<longrightarrow> build_idx i PNone s = s)
   \<and> (p \<noteq> PNone \<longrightarrow> build_idx i p PNone = PStr (str p @ ''_'' @ str_int i))
   \<and> (p \<noteq> PNone \<and> s \<noteq> PNone \<longrightarrow> build_idx i p s = PStr (str p @ ''_'' @ str s))"
  by (simp add: build_idx_def)

theorem build_idx_cases_witness:
  "build_idx 3 PNone PNone = PStr ''3''
   \<and> build_idx 3 PNone (PStr ''x'') = PStr ''x''
   \<and> build_idx 3 (PInt 1) PNone = PStr ''1_3''
   \<and> build_idx 3 (PInt 1) (PStr ''x'') = PStr ''1_x''"
  using build_idx_cases [of 3 "PStr ''x''" "PInt 1"]
  by (simp add: str_int_1 str_int_3)

subsection \<open>Flattening\<close>

lemma flatten_not_view:
  "\<not> isinstance_BaseInputs x \<Longrightarrow> BaseInputs_flatten x idx = Inr ([PNone], [x])"
  by (cases x) simp_all

lemma yield_all_Inr:
  "yield_all self ks = Inr ps \<Longrightarrow>
     ks = map fst ps \<and> list_all (\<lambda>(k, v). getitem self k = Inr v) ps"
  by (induction ks arbitrary: ps) (auto split: sum.splits)

lemma iter_two:
  assumes "iter self = Inr [(a, x), (b, y)]"
  shows "iter_indices self = [a, b]" and "getitem self a = Inr x" and "getitem self b = Inr y"
  using yield_all_Inr[OF assms[unfolded iter_def]] by simp_all

lemma flatten_two_leaves:
  assumes "iter self = Inr [(a, x), (b, y)]"
    and "\<not> isinstance_BaseInputs x" and "\<not> isinstance_BaseInputs y"
  shows "BaseInputs_flatten (View self) idx =
           Inr ([build_idx 0 idx PNone, build_idx 1 idx PNone], [x, y])"
  using iter_two[OF assms(1)] assms(2,3) by (simp add: flatten_not_view)

text \<open>
  C1, as the specification states it: every two-level structure whose outer view has two
  positions flattens to the paths \<open>"0_0"\<close>, \<open>"0_1"\<close>, \<open>"1_0"\<close>, \<open>"1_1"\<close>. The first segment
  of a path is the index the outer view yields, not the position: an outer \<open>DictInputs\<close>
  with the keys \<open>"p"\<close> and \<open>"q"\<close> has two positions and flattens to \<open>"p_0"\<close>, \<open>"p_1"\<close>,
  \<open>"q_0"\<close>, \<open>"q_1"\<close>.
\<close>

theorem flatten_two_level_counterexample:
  "BaseInputs_flatten
     (View (DictInputs
        [(PStr ''p'', View (ListInputs [Leaf (10::int), Leaf 11] ([]::string list))),
         (PStr ''q'', View (ListInputs [Leaf 12, Leaf 13] []))] [])) PNone
   = Inr ([PStr ''p_0'', PStr ''p_1'', PStr ''q_0'', PStr ''q_1''],
          [Leaf 10, Leaf 11, Leaf 12, Leaf 13])
   \<and> [PStr ''p_0'', PStr ''p_1'', PStr ''q_0'', PStr ''q_1'']
       \<noteq> [PStr ''0_0'', PStr ''0_1'', PStr ''1_0'', PStr ''1_1'']
   \<and> len (DictInputs
        [(PStr ''p'', View (ListInputs [Leaf (10::int), Leaf 11] ([]::string list))),
         (PStr ''q'', View (ListInputs [Leaf 12, Leaf 13] []))] []) = 2"
  by (simp add: dict_getitem_def build_idx_def str_int_0 str_int_1)

text \<open>
  C1, amended. A two-level structure: the outer view yields two indices \<open>p\<close> and \<open>q\<close>
  (neither of them \<open>None\<close>), each with an inner view; each inner view yields two elements
  that are not views. Called with no prefix (\<open>idx = None\<close>), \<open>_flatten\<close> returns exactly
  four entries, with the paths \<open>"{p}_0"\<close>, \<open>"{p}_1"\<close>, \<open>"{q}_0"\<close>, \<open>"{q}_1"\<close> in that order
  and the leaves depth-first in index order. For an outer \<open>ListInputs\<close> the indices are
  the positions 0 and 1 and the paths are \<open>"0_0"\<close>, \<open>"0_1"\<close>, \<open>"1_0"\<close>, \<open>"1_1"\<close>; for an
  outer \<open>DictInputs\<close> they are the keys. The inner views may be of any variant: the second
  segment is the position in the inner view, not its index.
\<close>

theorem flatten_two_level_keys:
  assumes "iter outer = Inr [(p, View inner_a), (q, View inner_b)]"
    and "p \<noteq> PNone" and "q \<noteq> PNone"
    and "iter inner_a = Inr [(ka, xa), (kb, xb)]"
    and "iter inner_b = Inr [(kc, xc), (kd, xd)]"
    and "\<not> isinstance_BaseInputs xa" and "\<not> isinstance_BaseInputs xb"
    and "\<not> isinstance_BaseInputs xc" and "\<not> isinstance_BaseInputs xd"
  shows "BaseInputs_flatten (View outer) PNone =
           Inr ([PStr (str p @ ''_0''), PStr (str p @ ''_1''),
                 PStr (str q @ ''_0''), PStr (str q @ ''_1'')], [xa, xb, xc, xd])"
proof -
  have f0: "BaseInputs_flatten (View inner_a) p =
              Inr ([PStr (str p @ ''_0''), PStr (str p @ ''_1'')], [xa, xb])"
    using flatten_two_leaves[OF assms(4) assms(6) assms(7), of p] assms(2)
    by (simp add: build_idx_def str_int_0 str_int_1)
  have f1: "BaseInputs_flatten (View inner_b) q =
              Inr ([PStr (str q @ ''_0''), PStr (str q @ ''_1'')], [xc, xd])"
    using flatten_two_leaves[OF assms(5) assms(8) assms(9), of q] assms(3)
    by (simp add: build_idx_def str_int_0 str_int_1)
  show ?thesis
    using iter_two[OF assms(1)] f0 f1 by (simp add: build_idx_def)
qed

theorem flatten_two_level_keys_witness:
  "BaseInputs_flatten
     (View (ListInputs
        [View (ListInputs [Leaf (10::int), Leaf 11] ([]::string list)),
         View (DictInputs [(PStr ''a'', Leaf 12), (PStr ''b'', Leaf 13)] [])] [])) PNone
   = Inr ([PStr ''0_0'', PStr ''0_1'', PStr ''1_0'', PStr ''1_1''],
          [Leaf 10, Leaf 11, Leaf 12, Leaf 13])"
  using flatten_two_level_keys [where
      outer = "ListInputs
        [View (ListInputs [Leaf (10::int), Leaf 11] ([]::string list)),
         View (DictInputs [(PStr ''a'', Leaf 12), (PStr ''b'', Leaf 13)] [])] []"
      and p = "PInt 0" and q = "PInt 1"
      and inner_a = "ListInputs [Leaf (10::int), Leaf 11] ([]::string list)"
      and inner_b = "DictInputs [(PStr ''a'', Leaf (12::int)), (PStr ''b'', Leaf 13)] ([]::string list)"
      and ka = "PInt 0" and kb = "PInt 1" and kc = "PStr ''a''" and kd = "PStr ''b''"
      and xa = "Leaf 10" and xb = "Leaf 11" and xc = "Leaf 12" and xd = "Leaf 13"]
  by (simp add: iter_def dict_getitem_def str_int_0 str_int_1)

lemma upt2: "[0..<2] = [0, Suc 0]"
  by (simp add: upt_rec)

lemma getitem_list_nat:
  "n < length vs \<Longrightarrow> getitem (ListInputs vs ts) (PInt (int n)) = Inr (vs ! n)"
  by simp

lemma flatten_loop_leaves:
  assumes "\<forall>v \<in> set vs. \<not> isinstance_BaseInputs v"
  shows "i \<le> length vs \<Longrightarrow>
         flatten_loop (ListInputs vs ts) PNone (map (\<lambda>n. PInt (int n)) [i..<length vs]) i
           = Inr (map (\<lambda>n. PStr (str_int (int n))) [i..<length vs], drop i vs)"
proof (induction "length vs - i" arbitrary: i)
  case 0
  then show ?case by simp
next
  case (Suc m)
  then have lt: "i < length vs" by simp
  have leaf: "\<not> isinstance_BaseInputs (vs ! i)" using assms lt by simp
  have IH: "flatten_loop (ListInputs vs ts) PNone (map (\<lambda>n. PInt (int n)) [Suc i..<length vs]) (Suc i)
           = Inr (map (\<lambda>n. PStr (str_int (int n))) [Suc i..<length vs], drop (Suc i) vs)"
    using Suc.hyps(1)[of "Suc i"] Suc.hyps(2) lt by simp
  show ?case
    using lt IH leaf
    by (simp add: upt_conv_Cons flatten_not_view build_idx_def Cons_nth_drop_Suc del: getitem.simps add: getitem_list_nat)
qed

text \<open>
  C8, as the specification states it: flattening a \<open>ListInputs\<close> of leaves gives every
  entry the path \<open>None\<close> before packaging. It does not: \<open>None\<close> is the path of a leaf
  flattened on its own; the loop over the view rewrites it with \<open>build_idx(i, None, None)\<close>,
  the string form of the position.
\<close>

theorem flatten_flat_list_counterexample:
  "BaseInputs_flatten (View (ListInputs [Leaf (7::int), Leaf 8] ([]::string list))) PNone
     = Inr ([PStr ''0'', PStr ''1''], [Leaf 7, Leaf 8])
   \<and> [PStr ''0'', PStr ''1''] \<noteq> [PNone, PNone]"
  by (simp add: upt2 build_idx_def str_int_0 str_int_1)

text \<open>
  C8, amended. For every \<open>ListInputs\<close> whose elements are all leaves (no views),
  \<open>_flatten\<close> returns the leaves unchanged and in their original order, the entry at
  position \<open>n\<close> carrying the path \<open>str(n)\<close>; \<open>ListInputs.flatten\<close> drops the paths and
  packages the leaves into a \<open>ListInputs\<close> of the same length in which position \<open>n\<close>
  holds the \<open>n\<close>-th leaf.
\<close>

theorem flatten_flat_list:
  assumes "\<forall>v \<in> set vs. \<not> isinstance_BaseInputs v"
  shows "BaseInputs_flatten (View (ListInputs vs ts)) PNone
           = Inr (map (\<lambda>n. PStr (str_int (int n))) [0..<length vs], vs)
         \<and> ListInputs_flatten ty (View (ListInputs vs ts)) = Inr (mk_ListInputs ty vs None)
         \<and> len (mk_ListInputs ty vs None) = length vs
         \<and> (\<forall>n < length vs. getitem (mk_ListInputs ty vs None) (PInt (int n)) = Inr (vs ! n))"
proof -
  have a: "BaseInputs_flatten (View (ListInputs vs ts)) PNone
           = Inr (map (\<lambda>n. PStr (str_int (int n))) [0..<length vs], vs)"
    using flatten_loop_leaves[OF assms, of 0 ts] by simp
  then show ?thesis
    by (simp add: ListInputs_flatten_def mk_ListInputs_def)
qed

theorem flatten_flat_list_witness:
  "BaseInputs_flatten (View (ListInputs [Leaf (7::int), Array [8, 9]] ([]::string list))) PNone
     = Inr ([PStr ''0'', PStr ''1''], [Leaf 7, Array [8, 9]])
   \<and> ListInputs_flatten (\<lambda>x. ''object'') (View (ListInputs [Leaf (7::int), Array [8, 9]] []))
     = Inr (ListInputs [Leaf 7, Array [8, 9]] [''object'', ''object''])
   \<and> getitem (ListInputs [Leaf (7::int), Array [8, 9]] [''object'', ''object'']) (PInt 1) = Inr (Array [8, 9])"
  using flatten_flat_list [of "[Leaf (7::int), Array [8, 9]]" "[]::string list" "\<lambda>x. ''object''"]
  by (simp add: upt2 str_int_0 str_int_1 mk_ListInputs_def)

subsection \<open>Lookup in a DictInputs\<close>

lemma list_getitem_in_range:
  "- int (length xs) \<le> i \<Longrightarrow> i < int (length xs) \<Longrightarrow>
     list_getitem xs (PInt i) = Inr (xs ! nat (if i < 0 then int (length xs) + i else i))"
  by (auto simp: Let_def)

lemma list_getitem_out_of_range:
  "i < - int (length xs) \<or> int (length xs) \<le> i \<Longrightarrow> list_getitem xs (PInt i) = Inl IndexError"
  by (auto simp: Let_def)

lemma dict_getitem_nth:
  "distinct (keys kvs) \<Longrightarrow> j < length kvs \<Longrightarrow> dict_getitem kvs (keys kvs ! j) = Inr (snd (kvs ! j))"
proof -
  assume d: "distinct (keys kvs)" and j: "j < length kvs"
  have "(fst (kvs ! j), snd (kvs ! j)) \<in> set kvs" using j by simp
  then have "map_of kvs (fst (kvs ! j)) = Some (snd (kvs ! j))"
    using d by (simp add: map_of_eq_Some_iff)
  then show ?thesis using j by (simp add: dict_getitem_def)
qed

text \<open>
  C3. For the \<open>DictInputs\<close> built from \<open>{"a": 1, "b": 2}\<close>, \<open>get("a")\<close> is 1, \<open>get(0)\<close>
  is 1 as well (0 is not a key, so it is read as a position in the key order) and
  \<open>get(1)\<close> is 2. In general, for a mapping (unique keys), an integer that is not a key and
  is a valid position of the key list (negative positions count from the end) raises
  nothing: the lookup returns the value of the key at that position.
\<close>

theorem dict_positional_fallback:
  "getitem (mk_DictInputs ty [(PStr ''a'', Leaf (1::int)), (PStr ''b'', Leaf 2)] None) (PStr ''a'')
     = Inr (Leaf 1)
   \<and> getitem (mk_DictInputs ty [(PStr ''a'', Leaf (1::int)), (PStr ''b'', Leaf 2)] None) (PInt 0)
     = Inr (Leaf 1)
   \<and> getitem (mk_DictInputs ty [(PStr ''a'', Leaf (1::int)), (PStr ''b'', Leaf 2)] None) (PInt 1)
     = Inr (Leaf 2)
   \<and> (distinct (keys kvs) \<and> PInt i \<notin> set (keys kvs)
        \<and> - int (length kvs) \<le> i \<and> i < int (length kvs)
      \<longrightarrow> getitem (mk_DictInputs ty kvs None) (PInt i)
            = Inr (snd (kvs ! nat (if i < 0 then int (length kvs) + i else i))))"
proof -
  have "getitem (mk_DictInputs ty kvs None) (PInt i)
            = Inr (snd (kvs ! nat (if i < 0 then int (length kvs) + i else i)))"
    if d: "distinct (keys kvs)" and nk: "PInt i \<notin> set (keys kvs)"
      and lo: "- int (length kvs) \<le> i" and hi: "i < int (length kvs)"
  proof -
    let ?j = "nat (if i < 0 then int (length kvs) + i else i)"
    have j: "?j < length kvs" using lo hi by auto
    have "list_getitem (keys kvs) (PInt i) = Inr (keys kvs ! ?j)"
      using list_getitem_in_range[of "keys kvs" i] lo hi by simp
    then show ?thesis
      using nk dict_getitem_nth[OF d j] by (simp add: mk_DictInputs_def)
  qed
  then show ?thesis
    by (simp add: mk_DictInputs_def dict_getitem_def)
qed

theorem dict_positional_fallback_witness:
  "getitem (mk_DictInputs (\<lambda>x. ''int'') [(PStr ''a'', Leaf (1::int)), (PStr ''b'', Leaf 2)] None) (PInt (- 1))
     = Inr (Leaf 2)
   \<and> getitem (mk_DictInputs (\<lambda>x. ''int'') [(PStr ''a'', Leaf (1::int)), (PStr ''b'', Leaf 2)] None) (PInt 0)
     = Inr (Leaf 1)"
  using dict_positional_fallback [of "\<lambda>x. ''int''" "[(PStr ''a'', Leaf (1::int)), (PStr ''b'', Leaf 2)]" "- 1"]
  by simp

text \<open>
  C10. For a \<open>DictInputs\<close> and an argument that is not a key: an integer \<open>i\<close> with
  \<open>i \<ge> length\<close> or \<open>i < - length\<close> raises \<open>IndexError\<close> (the fallback indexes the key
  list), and an argument that is not an integer raises \<open>TypeError\<close>. No value is returned
  in either case.
\<close>

theorem dict_lookup_raises:
  "(PInt i \<notin> set (keys kvs) \<and> (int (length kvs) \<le> i \<or> i < - int (length kvs))
      \<longrightarrow> getitem (DictInputs kvs ts) (PInt i) = Inl IndexError)
   \<and> (idx \<notin> set (keys kvs) \<and> (\<forall>i. idx \<noteq> PInt i)
      \<longrightarrow> getitem (DictInputs kvs ts) idx = Inl TypeError)"
proof -
  have "getitem (DictInputs kvs ts) idx = Inl TypeError"
    if "idx \<notin> set (keys kvs)" "\<forall>i. idx \<noteq> PInt i"
    using that by (cases idx) auto
  moreover have "getitem (DictInputs kvs ts) (PInt i) = Inl IndexError"
    if "PInt i \<notin> set (keys kvs)" "int (length kvs) \<le> i \<or> i < - int (length kvs)"
    using that list_getitem_out_of_range[of i "keys kvs"] by auto
  ultimately show ?thesis by blast
qed

theorem dict_lookup_raises_witness:
  "getitem (DictInputs [(PStr ''a'', Leaf (1::int)), (PStr ''b'', Leaf 2)] ([]::string list)) (PInt 2)
     = Inl IndexError
   \<and> getitem (DictInputs [(PStr ''a'', Leaf (1::int)), (PStr ''b'', Leaf 2)] ([]::string list)) (PStr ''c'')
     = Inl TypeError"
  using dict_lookup_raises [of 2 "[(PStr ''a'', Leaf (1::int)), (PStr ''b'', Leaf 2)]" "[]::string list" "PStr ''c''"]
  by simp

subsection \<open>Types and length\<close>

text \<open>
  C5. For each of the four variants, constructed without explicit types (\<open>types=None\<close>),
  the inferred \<open>types\<close> has as many entries as the view's \<open>len\<close>.
\<close>

theorem types_aligned_with_length:
  "length (types (mk_ListInputs ty vs None)) = len (mk_ListInputs ty vs None)
   \<and> length (types (mk_DictInputs ty kvs None)) = len (mk_DictInputs ty kvs None)
   \<and> length (types (mk_NDInputs a None)) = len (mk_NDInputs a None)
   \<and> length (types (mk_DataframeInputs d None)) = len (mk_DataframeInputs d None)"
  by (simp add: mk_ListInputs_def mk_DictInputs_def mk_NDInputs_def mk_DataframeInputs_def
        len_nd_def transpose_nd_def)

subsection \<open>Iteration\<close>

lemma yield_all_ok:
  "\<forall>k \<in> set ks. \<exists>v. getitem self k = Inr v \<Longrightarrow>
     \<exists>ps. yield_all self ks = Inr ps \<and> map fst ps = ks
          \<and> (\<forall>(k, v) \<in> set ps. getitem self k = Inr v)"
proof (induction ks)
  case Nil
  then show ?case by simp
next
  case (Cons k ks)
  then obtain v where v: "getitem self k = Inr v" by auto
  from Cons obtain ps where ps: "yield_all self ks = Inr ps" "map fst ps = ks"
      "\<forall>(k, v) \<in> set ps. getitem self k = Inr v" by auto
  have "yield_all self (k # ks) = Inr ((k, v) # ps)" using v ps(1) by simp
  then show ?case using v ps by auto
qed

lemma getitem_iter_index:
  "k \<in> set (iter_indices self) \<Longrightarrow> \<exists>v. getitem self k = Inr v"
proof (cases self)
  case (ListInputs vs ts)
  assume "k \<in> set (iter_indices self)"
  with ListInputs show ?thesis by auto
next
  case (DictInputs kvs ts)
  assume "k \<in> set (iter_indices self)"
  with DictInputs have "map_of kvs k \<noteq> None" by (simp add: map_of_eq_None_iff)
  with DictInputs \<open>k \<in> set (iter_indices self)\<close> show ?thesis
    by (auto simp: dict_getitem_def)
next
  case (NDInputs a ts)
  assume "k \<in> set (iter_indices self)"
  with NDInputs show ?thesis by auto
next
  case (DataframeInputs d ts)
  assume k: "k \<in> set (iter_indices self)"
  with DataframeInputs have "filter (\<lambda>s. name s = k) (cols d) \<noteq> []"
    by (auto simp: filter_empty_conv)
  then have "\<exists>v. frame_getitem d k = Inr v"
    by (auto simp: frame_getitem_def split: list.splits)
  with DataframeInputs k show ?thesis by auto
qed

lemma length_iter_indices: "length (iter_indices self) = len self"
  by (cases self) simp_all

text \<open>
  C6. For every variant, one full pass of the iterator raises nothing and yields exactly
  \<open>len\<close> pairs, one per index of the variant in its order; and for each yielded pair
  \<open>(idx, v)\<close>, \<open>self[idx]\<close> returns \<open>v\<close>.
\<close>

theorem iterate_complete:
  "\<exists>ps. iter self = Inr ps \<and> length ps = len self \<and> map fst ps = iter_indices self
        \<and> (\<forall>(idx, v) \<in> set ps. getitem self idx = Inr v)"
proof -
  from yield_all_ok[of "iter_indices self" self] getitem_iter_index[of _ self]
  obtain ps where ps: "yield_all self (iter_indices self) = Inr ps"
      "map fst ps = iter_indices self" "\<forall>(k, v) \<in> set ps. getitem self k = Inr v"
    by blast
  have "length ps = len self"
    using ps(2) length_iter_indices[of self] by (metis length_map)
  with ps show ?thesis unfolding iter_def by blast
qed

theorem iterate_complete_witness:
  "\<exists>ps. iter (DictInputs [(PStr ''a'', Leaf (1::int)), (PInt 0, Leaf 2)] ([]::string list)) = Inr ps
        \<and> length ps = 2 \<and> map fst ps = [PStr ''a'', PInt 0]"
proof -
  let ?D = "DictInputs [(PStr ''a'', Leaf (1::int)), (PInt 0, Leaf 2)] ([]::string list)"
  from iterate_complete [of ?D]
  obtain ps where "iter ?D = Inr ps" "length ps = len ?D" "map fst ps = iter_indices ?D"
    by blast
  then have "iter ?D = Inr ps \<and> length ps = 2 \<and> map fst ps = [PStr ''a'', PInt 0]"
    by simp
  then show ?thesis by (rule exI)
qed

subsection \<open>ConstantFNInput\<close>

text \<open>
  C7. The specification has every \<open>ConstantFNInput\<close> that wraps a callable call it anew on
  each access of \<open>value\<close>. No such object comes to exist: the constructor raises
  \<open>TypeError\<close> in its first statement, for the counter as for every other callable and
  whatever the other arguments, so there is nothing to read \<open>value\<close> from.
\<close>

theorem ConstantFNInput_init_raises:
  "ConstantFNInput_init counter ''counter'' () () output_type = Inl TypeError
   \<and> ConstantFNInput_init function fn_name fn_args fn_kwargs output_type' = Inl TypeError"
  by (simp add: ConstantFNInput_init_def object_init_def)

subsection \<open>ArgSampler\<close>

lemma keys_dict_set:
  "map fst (dict_set d k v) = (if k \<in> set (map fst d) then map fst d else map fst d @ [k])"
proof (induction d)
  case Nil
  then show ?case by simp
next
  case (Cons kv d)
  obtain k' v' where kv: "kv = (k', v')" by (cases kv)
  show ?case
  proof (cases "k' = k")
    case True
    then show ?thesis using kv by simp
  next
    case False
    then show ?thesis using kv Cons.IH by simp
  qed
qed

lemma keys_draw_dict:
  "distinct (map fst acc @ map fst items) \<Longrightarrow>
     map fst (fst (draw_dict uniform items acc g)) = map fst acc @ map fst items"
proof (induction items arbitrary: acc g)
  case Nil
  then show ?case by simp
next
  case (Cons it items)
  obtain a r where it: "it = (a, r)" by (cases it)
  obtain v g' where u: "uniform g r = (v, g')" by (cases "uniform g r")
  have notin: "a \<notin> set (map fst acc)" using Cons.prems it by auto
  have k: "map fst (dict_set acc a v) = map fst acc @ [a]"
    using notin by (simp only: keys_dict_set if_False)
  have "distinct (map fst (dict_set acc a v) @ map fst items)"
    using Cons.prems it unfolding k by simp
  from Cons.IH[OF this, of g'] have
    "map fst (fst (draw_dict uniform items (dict_set acc a v) g')) = (map fst acc @ [a]) @ map fst items"
    unfolding k .
  then show ?case using it u by simp
qed

lemma keys_dict_update_same:
  "set (map fst new) \<subseteq> set (map fst d) \<Longrightarrow> map fst (dict_update d new) = map fst d"
proof (induction new arbitrary: d)
  case Nil
  then show ?case by simp
next
  case (Cons kv new)
  obtain k v where kv: "kv = (k, v)" by (cases kv)
  have kin: "k \<in> set (map fst d)" using Cons.prems kv by simp
  have e: "map fst (dict_set d k v) = map fst d"
    using kin by (simp only: keys_dict_set if_True)
  have "set (map fst new) \<subseteq> set (map fst (dict_set d k v))"
    using Cons.prems unfolding e by simp
  from Cons.IH[OF this] have "map fst (dict_update (dict_set d k v) new) = map fst d"
    unfolding e .
  then show ?case using kv by simp
qed

lemma sample_loop_shape:
  assumes "distinct (map fst (arg_range_dict self))"
  shows "\<exists>new. fst (sample_loop self uniform k samples g) = samples @ new \<and> length new = k
           \<and> (\<forall>d \<in> set new. map fst d = map fst (arg_range_dict self))"
proof (induction k arbitrary: samples g)
  case 0
  then show ?case by simp
next
  case (Suc k)
  obtain args g1 where a: "draw_dict uniform (arg_range_dict self) [] g = (args, g1)"
    by (cases "draw_dict uniform (arg_range_dict self) [] g")
  obtain kwargs g2 where b: "draw_dict uniform (arg_range_dict self) [] g1 = (kwargs, g2)"
    by (cases "draw_dict uniform (arg_range_dict self) [] g1")
  have ka: "map fst args = map fst (arg_range_dict self)"
    using keys_draw_dict[of "[]" "arg_range_dict self" uniform g] assms a by simp
  have kb: "map fst kwargs = map fst (arg_range_dict self)"
    using keys_draw_dict[of "[]" "arg_range_dict self" uniform g1] assms b by simp
  have km: "map fst (dict_update args kwargs) = map fst (arg_range_dict self)"
    using keys_dict_update_same[of kwargs args] ka kb by simp
  let ?s' = "samples @ [dict_update args kwargs]"
  have step: "sample_loop self uniform (Suc k) samples g = sample_loop self uniform k ?s' g2"
    using a b by simp
  from Suc.IH[of ?s' g2] obtain new where new:
    "fst (sample_loop self uniform k ?s' g2) = ?s' @ new" "length new = k"
    "\<forall>d \<in> set new. map fst d = map fst (arg_range_dict self)" by blast
  have "fst (sample_loop self uniform (Suc k) samples g) = samples @ (dict_update args kwargs # new)"
    unfolding step using new(1) by simp
  moreover have "length (dict_update args kwargs # new) = Suc k" using new(2) by simp
  moreover have "\<forall>d \<in> set (dict_update args kwargs # new). map fst d = map fst (arg_range_dict self)"
    using new(3) km by simp
  ultimately show ?case by blast
qed

lemma sample_shape:
  assumes "distinct (keys (arg_range_dict self))"
  shows "length (fst (sample self check_random_state uniform random_state n seed)) = nat n
       \<and> (\<forall>d \<in> set (fst (sample self check_random_state uniform random_state n seed)).
             keys d = keys (arg_range_dict self))"
proof -
  let ?g = "case random_state of None \<Rightarrow> check_random_state seed | Some g \<Rightarrow> g"
  from assms have d: "distinct (map fst (arg_range_dict self))" by simp
  from sample_loop_shape[OF d, of uniform "nat n" "[]" ?g]
  obtain new where "fst (sample_loop self uniform (nat n) [] ?g) = new" "length new = nat n"
    "\<forall>d \<in> set new. map fst d = map fst (arg_range_dict self)" by auto
  then show ?thesis by (simp add: sample_def)
qed

text \<open>
  C4. The specification asks of every sample one entry per declared positional name and one per
  declared keyword name. The second comprehension of \<open>sample\<close> iterates
  \<open>self.arg_range_dict\<close> again, so its keys are the positional names, and the merged
  mapping has no entry for a keyword name: with the positional range \<open>x\<close> and the keyword
  range \<open>y\<close>, one sample is a mapping with the single key \<open>x\<close>, whatever the random source
  and the ranges. (\<open>sample_shape\<close> above is the general form: \<open>n\<close> samples, each with
  exactly the positional names as keys.)
\<close>

theorem sample_omits_keyword_names:
  "map keys (fst (sample (ArgSampler [(''x'', r)] [(''y'', r')]) check_random_state uniform
       random_state 1 seed)) = [[''x'']]"
  by (simp add: sample_def split: prod.splits)

subsection \<open>Flattening a structure that contains itself\<close>

lemma cyclic_heap_0: "cyclic_heap 0 = HListInputs [1, 0]"
  by (simp add: cyclic_heap_def)

lemma cyclic_heap_1: "cyclic_heap (Suc 0) = HLeaf 5"
  by (simp add: cyclic_heap_def)

lemma cyclic_heap_items: "hitems (cyclic_heap 0) = [(PInt 0, 1), (PInt 1, 0)]"
  by (simp add: cyclic_heap_0 upt_rec)

lemma cyclic_heap_leaf: "BaseInputs_flatten_h cyclic_heap (Suc d) (Suc 0) idx = Inr ([PNone], [Suc 0])"
  by (simp add: cyclic_heap_1)

lemma cyclic_heap_flatten: "BaseInputs_flatten_h cyclic_heap d 0 idx = Inl RecursionError"
proof (induction d arbitrary: idx)
  case 0
  then show ?case by simp
next
  case (Suc d)
  have "flatten_loop_h cyclic_heap d idx [(PInt 0, 1), (PInt 1, 0)] 0 = Inl RecursionError"
  proof (cases d)
    case 0
    then show ?thesis by simp
  next
    case (Suc d')
    then show ?thesis using Suc.IH[of "PInt 1"] cyclic_heap_leaf[of d' "PInt 0"] by simp
  qed
  then show ?case by (simp add: cyclic_heap_0 cyclic_heap_items)
qed

text \<open>
  C9, as the specification states it: flattening a self-referential view raises
  \<open>CyclicStructure\<close> rather than exhausting the call stack. \<open>_flatten\<close> keeps no set of
  visited views and raises nothing of its own: on the view that contains itself the
  recursion runs until the interpreter's limit (1000 frames by default) and ends in
  \<open>RecursionError\<close>.
\<close>

theorem flatten_cycle_counterexample:
  "BaseInputs_flatten_h cyclic_heap 1000 0 PNone = Inl RecursionError"
  by (rule cyclic_heap_flatten)

lemma flatten_h_only_recursion_error:
  "BaseInputs_flatten_h h d a idx = Inl e \<Longrightarrow> e = RecursionError"
  "flatten_loop_h h d idx items i = Inl e \<Longrightarrow> e = RecursionError"
proof (induction h d a idx and h d idx items i rule: BaseInputs_flatten_h_flatten_loop_h.induct)
  case (1 h inputs idx)
  then show ?case by simp
next
  case (2 h d inputs idx)
  then show ?case by (cases "h inputs") auto
next
  case (3 h d idx i)
  then show ?case by simp
next
  case (4 h d idx nested_idx nested_value rest i)
  then show ?case by (auto split: sum.splits prod.splits)
qed

lemma flatten_loop_h_error:
  "(k, c) \<in> set items \<Longrightarrow> BaseInputs_flatten_h h d c k = Inl RecursionError \<Longrightarrow>
     flatten_loop_h h d idx items i = Inl RecursionError"
proof (induction items arbitrary: i)
  case Nil
  then show ?case by simp
next
  case (Cons it items)
  obtain k' c' where it: "it = (k', c')" by (cases it)
  show ?case
  proof (cases "BaseInputs_flatten_h h d c' k'")
    case (Inl e)
    then have "e = RecursionError" by (rule flatten_h_only_recursion_error(1))
    with Inl it show ?thesis by simp
  next
    case (Inr r)
    with Cons.prems it have "(k, c) \<in> set items" by auto
    from Cons.IH[OF this Cons.prems(2)] have "flatten_loop_h h d idx items (Suc i) = Inl RecursionError" .
    with Inr it show ?thesis by (cases r) simp
  qed
qed

lemma cycle_child:
  assumes "contains_cycle h a"
  shows "\<exists>c. child h a c \<and> contains_cycle h c"
proof -
  from assms obtain b c where r: "reach h a b" and ch: "child h b c" and rcb: "reach h c b"
    unfolding contains_cycle_def by blast
  from r show ?thesis
  proof (cases rule: reach.cases)
    case reach_refl
    then have "child h a c" using ch by simp
    moreover have "contains_cycle h c"
      unfolding contains_cycle_def using rcb ch by blast
    ultimately show ?thesis by blast
  next
    case (reach_step a')
    then have "contains_cycle h a'"
      unfolding contains_cycle_def using ch rcb by blast
    with reach_step show ?thesis by blast
  qed
qed

text \<open>
  C9, amended. For every structure that contains a cycle and every recursion limit,
  \<open>_flatten\<close> returns no result: the recursion exhausts the limit and \<open>RecursionError\<close> is
  raised.
\<close>

theorem flatten_cycle_exhausts_stack:
  "contains_cycle h a \<Longrightarrow> BaseInputs_flatten_h h d a idx = Inl RecursionError"
proof (induction d arbitrary: a idx)
  case 0
  then show ?case by simp
next
  case (Suc d)
  from cycle_child[OF Suc.prems] obtain c where c: "child h a c" "contains_cycle h c" by blast
  from c(1) obtain k where k: "(k, c) \<in> set (hitems (h a))"
    unfolding child_def by auto
  have "BaseInputs_flatten_h h d c k = Inl RecursionError" using Suc.IH[OF c(2)] .
  from flatten_loop_h_error[OF k this]
  have loop: "flatten_loop_h h d idx (hitems (h a)) 0 = Inl RecursionError" .
  show ?case
  proof (cases "h a")
    case (HLeaf x)
    with k show ?thesis by simp
  next
    case (HListInputs as)
    with loop show ?thesis by simp
  next
    case (HDictInputs kvs)
    with loop show ?thesis by simp
  qed
qed

lemma cyclic_heap_cycle: "contains_cycle cyclic_heap 0"
proof -
  have "child cyclic_heap 0 0" by (simp add: child_def cyclic_heap_items)
  moreover have "reach cyclic_heap 0 0" by (rule reach_refl)
  ultimately show ?thesis unfolding contains_cycle_def by blast
qed

theorem flatten_cycle_exhausts_stack_witness:
  "BaseInputs_flatten_h cyclic_heap 5 0 PNone = Inl RecursionError"
  using flatten_cycle_exhausts_stack [OF cyclic_heap_cycle, of 5 PNone] .

end
